theory Spec2Isabelle
  imports
    Complex_Main
    "HOL-Library.Char_ord"
    "HOL-Library.List_Lexorder"
    "HOL-Library.Sublist"
    "HOL-Library.Multiset"
begin

section \<open>The survey dashboard of app.py\<close>

text \<open>
  The program is one script over a pandas DataFrame. A DataFrame is modelled as the list
  of its rows, in index order; a missing cell (NaN) is \<open>None\<close>. Python strings are
  lists of code points and are ordered lexicographically by code point, as Python and
  pandas compare them. Python floats are idealised as exact rationals.
\<close>

subsection \<open>Rows\<close>

text \<open>
  A naive pandas Timestamp, counted in seconds; the calendar date of \<open>.dt.date\<close> is
  identified with its day number.
\<close>

type_synonym timestamp = int

text \<open>
  A cell of the stored column \<open>Data Registro\<close> before \<open>pd.to_datetime\<close>: a value that
  denotes a point in time, a NULL, or a value the conversion rejects.
\<close>

datatype valor_data = Marca timestamp | Nula | Ilegivel

text \<open>
  A cell of the stored column \<open>Material Faltando\<close>: the Python value the store hands over,
  a boolean, an integer, \<open>None\<close> or a string.
\<close>

datatype valor_python = PyBool bool | PyInt int | PyNone | PyStr string

text \<open>
  One tuple returned by \<open>obter_todas_respostas\<close>, in the order of \<open>colunas\<close> (line 32).
\<close>

type_synonym resposta =
  "int \<times> string \<times> valor_python \<times> string option \<times> string \<times> string option \<times> valor_data"

text \<open>
  A row of \<open>df\<close> as \<open>carregar_dados\<close> returns it; the fields are the columns. A missing
  \<open>Data Registro\<close> (NaT) is \<open>None\<close>.
\<close>

record linha =
  ID :: int
  Setor :: string
  Material_Faltando :: "string option"
  Qual_Material :: "string option"
  Qualidade_Servico :: string
  Mensagem :: "string option"
  Data_Registro :: "timestamp option"

text \<open>The label \<open>N\<tilde>ao\<close> of line 37: the code points N, U+00E3, o.\<close>

definition Nao :: string where
  "Nao = [CHR ''N'', CHR 0xE3, CHR ''o'']"

subsection \<open>carregar_dados (lines 28-47)\<close>

text \<open>
  The exceptions the script can meet: a failure of the store query, with its message; a cell
  \<open>pd.to_datetime\<close> cannot convert; Python's own \<open>ZeroDivisionError\<close> and \<open>KeyError\<close>.
\<close>

datatype excecao = ErroConsulta string | ErroConversaoData | ZeroDivisionError | KeyError

text \<open>
  \<open>Series.map({True: 'Sim', False: 'N\<tilde>ao'})\<close> on one cell of an object column. The dict is
  searched by Python equality, under which the integers 1 and 0 are the keys \<open>True\<close> and
  \<open>False\<close>; a value that equals neither key gives NaN.
\<close>

fun sim_nao :: "valor_python \<Rightarrow> string option" where
  "sim_nao (PyBool True) = Some ''Sim''"
| "sim_nao (PyBool False) = Some Nao"
| "sim_nao (PyInt n) = (if n = 1 then Some ''Sim'' else if n = 0 then Some Nao else None)"
| "sim_nao PyNone = None"
| "sim_nao (PyStr x) = None"

text \<open>
  \<open>pd.to_datetime\<close> on a column: a NULL cell becomes NaT, and the call raises as soon as
  one cell cannot be converted.
\<close>

fun to_datetime :: "valor_data list \<Rightarrow> excecao + timestamp option list" where
  "to_datetime [] = Inr []"
| "to_datetime (Ilegivel # vs) = Inl ErroConversaoData"
| "to_datetime (Marca t # vs) =
     (case to_datetime vs of Inl e \<Rightarrow> Inl e | Inr ts \<Rightarrow> Inr (Some t # ts))"
| "to_datetime (Nula # vs) =
     (case to_datetime vs of Inl e \<Rightarrow> Inl e | Inr ts \<Rightarrow> Inr (None # ts))"

fun coluna_data :: "resposta \<Rightarrow> valor_data" where
  "coluna_data (i, s, mf, qm, q, m, d) = d"





fun montar_linha :: "resposta \<Rightarrow> timestamp option \<Rightarrow> linha" where
  "montar_linha (i, s, mf, qm, q, m, d) t =
     \<lparr>ID = i, Setor = s, Material_Faltando = sim_nao mf, Qual_Material = qm,
      Qualidade_Servico = q, Mensagem = m, Data_Registro = t\<rparr>"

text \<open>
  The argument is what \<open>obter_todas_respostas()\<close> does: it raises (\<open>Inl\<close>) or returns the
  stored tuples. The result is the message handed to \<open>st.error\<close>, if any, and the
  returned DataFrame; every exception of the \<open>try\<close> block ends in the \<open>except\<close> branch,
  which returns the empty DataFrame.
\<close>

definition carregar_dados :: "excecao + resposta list \<Rightarrow> excecao option \<times> linha list" where
  "carregar_dados consulta =
     (case consulta of
        Inl e \<Rightarrow> (Some e, [])
      | Inr respostas \<Rightarrow>
          if respostas \<noteq> [] then
            (case to_datetime (map coluna_data respostas) of
               Inl e \<Rightarrow> (Some e, [])
             | Inr datas \<Rightarrow> (None, map2 montar_linha respostas datas))
          else (None, []))"

subsection \<open>The filters (lines 227-233)\<close>

definition df_filtrado :: "string list \<Rightarrow> string list \<Rightarrow> string \<Rightarrow> linha list \<Rightarrow> linha list" where
  "df_filtrado setores_selecionados qualidade_selecionada material_selecionado df =
     (let filtrado = filter (\<lambda>l. Setor l \<in> set setores_selecionados \<and>
                                  Qualidade_Servico l \<in> set qualidade_selecionada) df
      in if material_selecionado \<noteq> ''Todos''
         then filter (\<lambda>l. Material_Faltando l = Some material_selecionado) filtrado
         else filtrado)"

text \<open>The options of the select box of line 222.\<close>

definition opcoes_material :: "string list" where
  "opcoes_material = [''Todos'', ''Sim'', Nao]"

subsection \<open>The cache of line 27 and the refresh button (lines 53-55)\<close>

text \<open>
  \<open>@st.cache_data(ttl=300)\<close> keeps what a run of the function produced, the call of
  \<open>st.error\<close> it made, if any, and the DataFrame it returned, with the time of the call.
  While the entry is younger than \<open>ttl\<close> seconds a call does not run the function: it
  shows the recorded message again and returns the recorded DataFrame. On a miss the function
  runs and what it produces, whatever it is, becomes the entry. The state is the entry, if
  any; the time of the call is an argument.
\<close>

definition ttl :: int where
  "ttl = 300"

type_synonym cache = "(timestamp \<times> excecao option \<times> linha list) option"

definition carregar_dados_cache ::
  "cache \<Rightarrow> timestamp \<Rightarrow> excecao + resposta list \<Rightarrow> (excecao option \<times> linha list) \<times> cache" where
  "carregar_dados_cache c agora consulta =
     (let executar = (let r = carregar_dados consulta in (r, Some (agora, r)))
      in case c of
           None \<Rightarrow> executar
         | Some (criado, r) \<Rightarrow> if agora - criado < ttl then (r, c) else executar)"

text \<open>The button: \<open>st.cache_data.clear()\<close>, then the script runs again.\<close>

definition atualizar_dados :: "cache \<Rightarrow> timestamp \<Rightarrow> excecao + resposta list \<Rightarrow> (excecao option \<times> linha list) \<times> cache" where
  "atualizar_dados c agora consulta = carregar_dados_cache None agora consulta"

subsection \<open>The metrics (lines 69-80)\<close>

definition truediv :: "nat \<Rightarrow> nat \<Rightarrow> excecao + rat" where
  "truediv a b = (if b = 0 then Inl ZeroDivisionError else Inr (of_nat a / of_nat b))"

definition total_respostas :: "linha list \<Rightarrow> nat" where
  "total_respostas df = length df"

definition material_faltando :: "linha list \<Rightarrow> nat" where
  "material_faltando df = length (filter (\<lambda>l. Material_Faltando l = Some ''Sim'') df)"

definition percentual_falta :: "linha list \<Rightarrow> excecao + rat" where
  "percentual_falta df =
     (if total_respostas df > 0
      then (case truediv (material_faltando df) (total_respostas df) of
              Inl e \<Rightarrow> Inl e | Inr q \<Rightarrow> Inr (q * 100))
      else Inr 0)"

definition satisfacao_boa :: "linha list \<Rightarrow> nat" where
  "satisfacao_boa df =
     length (filter (\<lambda>l. Qualidade_Servico l \<in> set [''Muito Bom'', ''Bom'']) df)"

definition percentual_satisfacao :: "linha list \<Rightarrow> excecao + rat" where
  "percentual_satisfacao df =
     (if total_respostas df > 0
      then (case truediv (satisfacao_boa df) (total_respostas df) of
              Inl e \<Rightarrow> Inl e | Inr q \<Rightarrow> Inr (q * 100))
      else Inr 0)"

subsection \<open>pd.crosstab (lines 130 and 180)\<close>






subsection \<open>The daily series (lines 163-164)\<close>

text \<open>\<open>.dt.date\<close>: the day a timestamp falls on.\<close>

definition dt_date :: "timestamp \<Rightarrow> int" where
  "dt_date t = t div 86400"

text \<open>The column \<open>Data\<close> of line 163; the date of NaT is NaT.\<close>

definition Data :: "linha \<Rightarrow> int option" where
  "Data l = map_option dt_date (Data_Registro l)"

text \<open>The keys a grouping keeps: it drops the rows whose key is missing.\<close>

fun chaves_presentes :: "'a option list \<Rightarrow> 'a list" where
  "chaves_presentes [] = []"
| "chaves_presentes (Some k # ks) = k # chaves_presentes ks"
| "chaves_presentes (None # ks) = chaves_presentes ks"

text \<open>
  \<open>groupby('Data').size()\<close>: one group per distinct date that is present, in ascending
  order of the date, with the number of rows of that date.
\<close>

definition respostas_diarias :: "linha list \<Rightarrow> (int \<times> nat) list" where
  "respostas_diarias df =
     (let datas = chaves_presentes (map Data df)
      in map (\<lambda>d. (d, count_list datas d)) (sort (remdups datas)))"

subsection \<open>The statistics of the filtered frame (lines 242-255)\<close>







subsection \<open>Orders the specification speaks of\<close>



subsection \<open>Example rows\<close>

definition linha_ex :: "string \<Rightarrow> string option \<Rightarrow> string \<Rightarrow> timestamp \<Rightarrow> linha" where
  "linha_ex s mf q t =
     \<lparr>ID = 0, Setor = s, Material_Faltando = mf, Qual_Material = None,
      Qualidade_Servico = q, Mensagem = None, Data_Registro = Some t\<rparr>"

definition resposta_ex :: "string \<Rightarrow> valor_python \<Rightarrow> string \<Rightarrow> valor_data \<Rightarrow> resposta" where
  "resposta_ex s mf q d = (0, s, mf, None, q, None, d)"

definition df_dias :: "linha list" where
  "df_dias = [linha_ex ''Copa'' (Some ''Sim'') ''Bom'' 90000,
              linha_ex ''Copa'' (Some Nao) ''Bom'' 10,
              linha_ex ''Cozinha'' (Some Nao) ''Bom'' 100000]"

definition df_dez :: "linha list" where
  "df_dez =
     [linha_ex ''Copa'' (Some ''Sim'') ''Muito Bom'' 0,
      linha_ex ''Copa'' (Some ''Sim'') ''Muito Bom'' 0,
      linha_ex ''Copa'' (Some ''Sim'') ''Bom'' 0,
      linha_ex ''Copa'' (Some Nao) ''Bom'' 0,
      linha_ex ''Copa'' (Some Nao) ''Bom'' 0,
      linha_ex ''Copa'' (Some Nao) ''Muito Bom'' 0,
      linha_ex ''Copa'' (Some Nao) ''Regular'' 0,
      linha_ex ''Copa'' (Some Nao) ''Regular'' 0,
      linha_ex ''Copa'' (Some Nao) ''Ruim'' 0,
      linha_ex ''Copa'' (Some Nao) ''Ruim'' 0]"



section \<open>Properties of the filters\<close>

lemma Nao_neq [simp]: "Nao \<noteq> ''Sim''" "Nao \<noteq> ''Todos''" "''Sim'' \<noteq> Nao" "''Todos'' \<noteq> Nao"
  by (simp_all add: Nao_def)

lemma sim_nao_Sim: "sim_nao (PyBool b) = Some ''Sim'' \<longleftrightarrow> b"
  by (cases b) simp_all

lemma sim_nao_Nao: "sim_nao (PyBool b) = Some Nao \<longleftrightarrow> \<not> b"
  by (cases b) simp_all

lemma df_filtrado_filter:
  "df_filtrado ss qs m df =
     filter (\<lambda>l. Setor l \<in> set ss \<and> Qualidade_Servico l \<in> set qs \<and>
                 (m = ''Todos'' \<or> Material_Faltando l = Some m)) df"
  by (auto simp: df_filtrado_def Let_def intro: filter_cong)

text \<open>
  C1. A row whose \<open>Material Faltando\<close> cell was made from the boolean \<open>b\<close> is in the filtered
  frame iff it is in \<open>df\<close>, its sector is among the selected sectors, its quality among the
  selected qualities, and the select box is on \<open>Todos\<close>, or on \<open>Sim\<close> with \<open>b\<close> true, or on
  \<open>N\<tilde>ao\<close> with \<open>b\<close> false. An empty selection of sectors or of qualities gives the empty frame.
\<close>

theorem C1_filter_membership:
  assumes "m \<in> set opcoes_material"
    and "Material_Faltando l = sim_nao (PyBool b)"
  shows "(l \<in> set (df_filtrado ss qs m df) \<longleftrightarrow>
            l \<in> set df \<and> Setor l \<in> set ss \<and> Qualidade_Servico l \<in> set qs \<and>
            (m = ''Todos'' \<or> (m = ''Sim'' \<and> b) \<or> (m = Nao \<and> \<not> b)))
         \<and> df_filtrado [] qs m df = [] \<and> df_filtrado ss [] m df = []"
proof -
  have mat: "Material_Faltando l = Some m \<longleftrightarrow> (m = ''Sim'' \<and> b) \<or> (m = Nao \<and> \<not> b)"
    if "m \<noteq> ''Todos''"
    using assms that by (cases b) (auto simp: opcoes_material_def)
  have "l \<in> set (df_filtrado ss qs m df) \<longleftrightarrow>
          l \<in> set df \<and> Setor l \<in> set ss \<and> Qualidade_Servico l \<in> set qs \<and>
          (m = ''Todos'' \<or> (m = ''Sim'' \<and> b) \<or> (m = Nao \<and> \<not> b))"
    using mat by (auto simp: df_filtrado_filter)
  moreover have "df_filtrado [] qs m df = []" "df_filtrado ss [] m df = []"
    by (simp_all add: df_filtrado_filter)
  ultimately show ?thesis by blast
qed

theorem C1_filter_membership_witness:
  "''Sim'' \<in> set opcoes_material
   \<and> Material_Faltando (linha_ex ''Cozinha'' (Some ''Sim'') ''Bom'' 0) = sim_nao (PyBool True)
   \<and> linha_ex ''Cozinha'' (Some ''Sim'') ''Bom'' 0
       \<in> set (df_filtrado [''Cozinha''] [''Bom''] ''Sim''
                [linha_ex ''Copa'' (Some ''Sim'') ''Bom'' 0,
                 linha_ex ''Cozinha'' (Some ''Sim'') ''Bom'' 0])
   \<and> df_filtrado [] [''Bom''] ''Sim''
        [linha_ex ''Copa'' (Some ''Sim'') ''Bom'' 0,
         linha_ex ''Cozinha'' (Some ''Sim'') ''Bom'' 0] = []"
proof -
  have h1: "''Sim'' \<in> set opcoes_material" by (simp add: opcoes_material_def)
  have h2: "Material_Faltando (linha_ex ''Cozinha'' (Some ''Sim'') ''Bom'' 0) = sim_nao (PyBool True)"
    by (simp add: linha_ex_def)
  show ?thesis
    using h1 h2
      C1_filter_membership [OF h1 h2, of "[''Cozinha'']" "[''Bom'']"
        "[linha_ex ''Copa'' (Some ''Sim'') ''Bom'' 0, linha_ex ''Cozinha'' (Some ''Sim'') ''Bom'' 0]"]
    by (simp add: linha_ex_def)
qed

text \<open>
  C8. The filtered frame has at most as many rows as \<open>df\<close>, and filtering it again with the
  same selections changes nothing.
\<close>

theorem C8_filter_bounded_idempotent:
  "length (df_filtrado ss qs m df) \<le> length df
   \<and> df_filtrado ss qs m (df_filtrado ss qs m df) = df_filtrado ss qs m df"
  by (simp add: df_filtrado_filter)

text \<open>
  C10. The filtered frame is a subsequence of \<open>df\<close>: its rows are rows of \<open>df\<close>, unchanged
  and in the order they have there.
\<close>

theorem C10_filter_subsequence:
  "subseq (df_filtrado ss qs m df) df"
  by (simp add: df_filtrado_filter)

section \<open>Properties of the daily series\<close>

lemma sum_count_sort_remdups:
  "sum_list (map (count_list xs) (sort (remdups xs))) = length xs"
proof -
  have "distinct (sort (remdups xs))" by simp
  then have "sum_list (map (count_list xs) (sort (remdups xs))) =
      sum (count_list xs) (set (sort (remdups xs)))"
    by (rule sum_list_distinct_conv_sum_set)
  also have "\<dots> = sum (count_list xs) (set xs)" by simp
  also have "\<dots> = length xs" by (rule sum_count_set) simp_all
  finally show ?thesis .
qed

lemma set_chaves_presentes: "set (chaves_presentes ks) = {k. Some k \<in> set ks}"
  by (induction ks rule: chaves_presentes.induct) auto

lemma count_chaves_presentes:
  "count_list (chaves_presentes (map Data df)) d = length (filter (\<lambda>l. Data l = Some d) df)"
proof (induction df)
  case Nil
  show ?case by simp
next
  case (Cons l df)
  then show ?case by (cases "Data l") simp_all
qed

lemma length_chaves_presentes:
  "length (chaves_presentes (map Data df)) = length (filter (\<lambda>l. Data_Registro l \<noteq> None) df)"
proof (induction df)
  case Nil
  show ?case by simp
next
  case (Cons l df)
  then show ?case by (cases "Data_Registro l") (simp_all add: Data_def)
qed

lemma respostas_diarias_fst:
  "map fst (respostas_diarias df) = sort (remdups (chaves_presentes (map Data df)))"
  by (simp add: respostas_diarias_def Let_def comp_def)

lemma respostas_diarias_snd:
  "map snd (respostas_diarias df) =
     map (count_list (chaves_presentes (map Data df)))
       (sort (remdups (chaves_presentes (map Data df))))"
  by (simp add: respostas_diarias_def Let_def comp_def)

text \<open>
  C5, as the script has it. The dates of the daily series are exactly the days on which some
  row of \<open>df\<close> with a timestamp was registered; they are strictly increasing, so none occurs
  twice; each carries the number of rows registered on that day, which is never zero. The
  counts add up to the number of rows that have a timestamp: the grouping drops the rows
  whose \<open>Data Registro\<close> is missing. When no row lacks its timestamp the counts add up to the
  number of rows.
\<close>

theorem C5_daily_series:
  "set (map fst (respostas_diarias df)) = {d. Some d \<in> Data ` set df}
   \<and> sorted_wrt (<) (map fst (respostas_diarias df))
   \<and> distinct (map fst (respostas_diarias df))
   \<and> (\<forall>(d, n) \<in> set (respostas_diarias df).
         n = length (filter (\<lambda>l. Data l = Some d) df) \<and> 0 < n)
   \<and> sum_list (map snd (respostas_diarias df)) =
       length (filter (\<lambda>l. Data_Registro l \<noteq> None) df)
   \<and> (None \<notin> Data_Registro ` set df \<longrightarrow>
        sum_list (map snd (respostas_diarias df)) = length df)"
proof -
  let ?datas = "chaves_presentes (map Data df)"
  have keys: "map fst (respostas_diarias df) = sort (remdups ?datas)"
    by (rule respostas_diarias_fst)
  have c1: "set (map fst (respostas_diarias df)) = {d. Some d \<in> Data ` set df}"
    unfolding keys by (simp add: set_chaves_presentes)
  have c3: "distinct (map fst (respostas_diarias df))"
    unfolding keys by simp
  have "sorted (map fst (respostas_diarias df))"
    unfolding keys by simp
  with c3 have c2: "sorted_wrt (<) (map fst (respostas_diarias df))"
    by (simp add: strict_sorted_iff)
  have c4: "\<forall>(d, n) \<in> set (respostas_diarias df).
         n = length (filter (\<lambda>l. Data l = Some d) df) \<and> 0 < n"
  proof (clarify)
    fix d n assume "(d, n) \<in> set (respostas_diarias df)"
    then have d: "d \<in> set ?datas" and n: "n = count_list ?datas d"
      by (auto simp: respostas_diarias_def Let_def)
    from d have "count_list ?datas d \<noteq> 0" by (simp only: count_list_0_iff not_not)
    with n show "n = length (filter (\<lambda>l. Data l = Some d) df) \<and> 0 < n"
      by (simp add: count_chaves_presentes)
  qed
  have c5: "sum_list (map snd (respostas_diarias df)) =
      length (filter (\<lambda>l. Data_Registro l \<noteq> None) df)"
    unfolding respostas_diarias_snd
    using sum_count_sort_remdups [of ?datas] by (simp add: length_chaves_presentes)
  have c6: "sum_list (map snd (respostas_diarias df)) = length df"
    if "None \<notin> Data_Registro ` set df"
  proof -
    have "Data_Registro l \<noteq> None" if "l \<in> set df" for l
    proof
      assume "Data_Registro l = None"
      with \<open>l \<in> set df\<close> have "None \<in> Data_Registro ` set df" by force
      with \<open>None \<notin> Data_Registro ` set df\<close> show False by contradiction
    qed
    then have "filter (\<lambda>l. Data_Registro l \<noteq> None) df = df"
      by (intro filter_True) blast
    with c5 show ?thesis by simp
  qed
  from c1 c2 c3 c4 c5 c6 show ?thesis by blast
qed

theorem C5_daily_series_witness:
  "None \<notin> Data_Registro ` set df_dias
   \<and> respostas_diarias df_dias = [(0, 1), (1, 2)]
   \<and> (1, 2) \<in> set (respostas_diarias df_dias)
   \<and> (2 :: nat) = length (filter (\<lambda>l. Data l = Some 1) df_dias)
   \<and> sum_list (map snd (respostas_diarias df_dias)) = length df_dias"
  using C5_daily_series [of df_dias]
  by (simp add: respostas_diarias_def df_dias_def linha_ex_def dt_date_def Data_def Let_def)

text \<open>
  The sum of the claim fails: a store that returns one tuple with a timestamp and one whose
  timestamp is NULL loads into a frame of two rows, and the daily series of that frame has
  the single count 1.
\<close>

theorem C5_counterexample:
  "carregar_dados (Inr [resposta_ex ''Copa'' (PyBool True) ''Bom'' (Marca 0),
                        resposta_ex ''Copa'' (PyBool True) ''Bom'' Nula])
     = (None, [linha_ex ''Copa'' (Some ''Sim'') ''Bom'' 0,
               (linha_ex ''Copa'' (Some ''Sim'') ''Bom'' 0)\<lparr>Data_Registro := None\<rparr>])
   \<and> respostas_diarias [linha_ex ''Copa'' (Some ''Sim'') ''Bom'' 0,
        (linha_ex ''Copa'' (Some ''Sim'') ''Bom'' 0)\<lparr>Data_Registro := None\<rparr>] = [(0, 1)]
   \<and> length [linha_ex ''Copa'' (Some ''Sim'') ''Bom'' 0,
        (linha_ex ''Copa'' (Some ''Sim'') ''Bom'' 0)\<lparr>Data_Registro := None\<rparr>] = (2 :: nat)"
  by (simp add: carregar_dados_def resposta_ex_def linha_ex_def respostas_diarias_def
      dt_date_def Data_def Let_def)

section \<open>Properties of the metrics\<close>

lemma material_faltando_le: "material_faltando df \<le> length df"
  by (simp add: material_faltando_def)

lemma percentual_falta_value:
  "percentual_falta df =
     Inr (if length df = 0 then 0
          else of_nat (material_faltando df) / of_nat (length df) * 100)"
  by (simp add: percentual_falta_def total_respostas_def truediv_def)

text \<open>
  C2, as the script has it. \<open>material_faltando\<close> is the number of rows whose
  \<open>Material Faltando\<close> cell is \<open>Sim\<close>. \<open>percentual_falta\<close> always has a value, never an
  exception: 0 for the empty frame, and otherwise that number divided by the number of rows
  and multiplied by 100. It is a percentage: it lies between 0 and 100.
\<close>

theorem C2_missing_percentage:
  "material_faltando df = length (filter (\<lambda>l. Material_Faltando l = Some ''Sim'') df)
   \<and> (\<exists>p. percentual_falta df = Inr p
          \<and> p = (if length df = 0 then 0
                 else of_nat (material_faltando df) / of_nat (length df) * 100)
          \<and> 0 \<le> p \<and> p \<le> 100)"
proof -
  let ?p = "if length df = 0 then 0
            else (of_nat (material_faltando df) / of_nat (length df) * 100 :: rat)"
  have "0 \<le> ?p" by simp
  moreover have "?p \<le> 100"
  proof (cases "length df = 0")
    case True then show ?thesis by simp
  next
    case False
    define q :: rat where "q = of_nat (material_faltando df) / of_nat (length df)"
    have "(of_nat (material_faltando df) :: rat) \<le> of_nat (length df)"
      using material_faltando_le [of df] by (simp only: of_nat_le_iff)
    moreover from False have "(0 :: rat) < of_nat (length df)" by simp
    ultimately have "q \<le> 1" unfolding q_def by (simp only: divide_le_eq_1_pos)
    then have "q * 100 \<le> 1 * 100" by (rule mult_right_mono) simp
    with False show ?thesis unfolding q_def by simp
  qed
  ultimately show ?thesis
    by (simp add: percentual_falta_value material_faltando_def)
qed

text \<open>
  The bound of the claim fails: on a frame of one row that lacks material,
  \<open>percentual_falta\<close> is 100, which is not in the interval from 0 to 1.
\<close>

theorem C2_counterexample:
  "percentual_falta [linha_ex ''Copa'' (Some ''Sim'') ''Bom'' 0] = Inr 100
   \<and> \<not> (100 :: rat) \<le> 1"
  by (simp add: percentual_falta_def total_respostas_def truediv_def material_faltando_def
      linha_ex_def)

lemma percentual_satisfacao_value:
  "percentual_satisfacao df =
     Inr (if length df = 0 then 0
          else of_nat (satisfacao_boa df) / of_nat (length df) * 100)"
  by (simp add: percentual_satisfacao_def total_respostas_def truediv_def)

text \<open>
  C9, as the script has it. \<open>satisfacao_boa\<close> is the number of rows rated \<open>Muito Bom\<close> or
  \<open>Bom\<close>, and \<open>percentual_satisfacao\<close> is that number divided by the number of rows and
  multiplied by 100 (0 for the empty frame); 6 such rows out of 10 give 6 and 60.
\<close>

theorem C9_positive_satisfaction:
  "satisfacao_boa df =
     length (filter (\<lambda>l. Qualidade_Servico l = ''Muito Bom'' \<or> Qualidade_Servico l = ''Bom'') df)
   \<and> percentual_satisfacao df =
       Inr (if length df = 0 then 0
            else of_nat (satisfacao_boa df) / of_nat (length df) * 100)
   \<and> (length df = 10 \<and> satisfacao_boa df = 6 \<longrightarrow> percentual_satisfacao df = Inr 60)"
proof -
  have a: "satisfacao_boa df =
     length (filter (\<lambda>l. Qualidade_Servico l = ''Muito Bom'' \<or> Qualidade_Servico l = ''Bom'') df)"
    by (simp add: satisfacao_boa_def)
  have c: "percentual_satisfacao df = Inr 60" if "length df = 10" "satisfacao_boa df = 6"
    using that by (simp add: percentual_satisfacao_value)
  from a percentual_satisfacao_value [of df] c show ?thesis by blast
qed

theorem C9_positive_satisfaction_witness:
  "length df_dez = 10 \<and> satisfacao_boa df_dez = 6 \<and> percentual_satisfacao df_dez = Inr 60"
proof -
  have h: "length df_dez = 10 \<and> satisfacao_boa df_dez = 6"
    by (simp add: df_dez_def satisfacao_boa_def linha_ex_def)
  with C9_positive_satisfaction [of df_dez] show ?thesis by blast
qed

text \<open>
  The quotient of the claim fails: on a frame of 10 rows of which 6 are rated \<open>Muito Bom\<close>
  or \<open>Bom\<close>, \<open>percentual_satisfacao\<close> is 60, which is not 6 divided by 10.
\<close>

theorem C9_counterexample:
  "length df_dez = 10 \<and> satisfacao_boa df_dez = 6
   \<and> percentual_satisfacao df_dez = Inr 60
   \<and> (60 :: rat) \<noteq> 6 / 10"
  by (simp add: percentual_satisfacao_def total_respostas_def truediv_def df_dez_def
      satisfacao_boa_def linha_ex_def)

section \<open>Properties of the most common rating\<close>










section \<open>Properties of the cross tables\<close>











section \<open>Properties of loading\<close>







text \<open>
  C6, as the script has it. When the query raises, \<open>carregar_dados\<close> hands the message to
  \<open>st.error\<close> and returns the empty frame, the same frame as for a store without rows; no
  exception reaches the caller. On a cache miss (no entry, an entry of age \<open>ttl\<close> or more, or
  after the refresh button) this message and this empty frame are what the call gives, and
  they become the entry. While an entry is younger than \<open>ttl\<close> the store is not asked: the
  call gives the recorded message, if any, and the recorded frame, and the entry stays.
\<close>

theorem C6_failed_query_gives_empty_frame:
  "carregar_dados (Inl e) = (Some e, [])
   \<and> snd (carregar_dados (Inl e)) = snd (carregar_dados (Inr []))
   \<and> carregar_dados_cache None agora (Inl e) = ((Some e, []), Some (agora, Some e, []))
   \<and> (\<not> agora - criado < ttl \<longrightarrow>
        carregar_dados_cache (Some (criado, r)) agora (Inl e)
          = ((Some e, []), Some (agora, Some e, [])))
   \<and> (agora - criado < ttl \<longrightarrow>
        carregar_dados_cache (Some (criado, r)) agora consulta = (r, Some (criado, r)))
   \<and> atualizar_dados (Some (criado, r)) agora (Inl e) = ((Some e, []), Some (agora, Some e, []))"
  by (simp add: carregar_dados_def carregar_dados_cache_def atualizar_dados_def Let_def)

theorem C6_failed_query_gives_empty_frame_witness:
  "\<not> (400 :: int) - 0 < ttl
   \<and> carregar_dados_cache (Some (0, None, [linha_ex ''Copa'' (Some ''Sim'') ''Bom'' 0])) 400
       (Inl (ErroConsulta ''timeout''))
     = ((Some (ErroConsulta ''timeout''), []), Some (400, Some (ErroConsulta ''timeout''), []))
   \<and> (500 :: int) - 400 < ttl
   \<and> carregar_dados_cache (Some (400, Some (ErroConsulta ''timeout''), [])) 500
       (Inr [resposta_ex ''Copa'' (PyBool True) ''Bom'' (Marca 0)])
     = ((Some (ErroConsulta ''timeout''), []), Some (400, Some (ErroConsulta ''timeout''), []))"
  using
    C6_failed_query_gives_empty_frame [of "ErroConsulta ''timeout''" 400 0
      "(None, [linha_ex ''Copa'' (Some ''Sim'') ''Bom'' 0])"]
    C6_failed_query_gives_empty_frame [of "ErroConsulta ''timeout''" 500 400
      "(Some (ErroConsulta ''timeout''), [])"
      "Inr [resposta_ex ''Copa'' (PyBool True) ''Bom'' (Marca 0)]"]
  by (simp add: ttl_def)

text \<open>
  The claim fails: with a frame of one row loaded at time 0, a call at time 400 whose query
  raises returns the empty frame, as an empty store would, and the cache holds the message
  and the empty frame afterwards.
\<close>

theorem C6_counterexample:
  "carregar_dados_cache (Some (0, None, [linha_ex ''Copa'' (Some ''Sim'') ''Bom'' 0])) 400
       (Inl (ErroConsulta ''timeout''))
     = ((Some (ErroConsulta ''timeout''), []), Some (400, Some (ErroConsulta ''timeout''), []))
   \<and> snd (carregar_dados (Inl (ErroConsulta ''timeout''))) = snd (carregar_dados (Inr []))"
  by (simp add: carregar_dados_def carregar_dados_cache_def Let_def ttl_def)

end
